theory Spec2Isabelle
  imports Complex_Main
begin

section \<open>ChatRecommend: data model\<close>

text \<open>
  Conventions of the embedding.
  \<^item> A Go \<open>string\<close> is modelled as the list of its Unicode code points (\<open>rune list\<close>):
    the code under study measures strings with \<open>len([]rune(s))\<close>, and the texts it
    handles are valid UTF-8, where a byte offset returned by \<open>strings.Index\<close> for a
    valid UTF-8 needle always falls on a rune boundary, so slicing at it is slicing the
    code point list.
  \<^item> Go's \<open>int\<close> and \<open>int64\<close> are modelled as \<open>int\<close>, and the arithmetic on them as
    arithmetic on the integers. The quantities are lengths of slices, message counts, a
    version counter, a character budget and thresholds; on such values the 64-bit
    arithmetic of Go and the arithmetic of the integers agree (subsection
    on machine integers below gives the ranges).
  \<^item> A \<open>float64\<close> is modelled as a \<open>real\<close>; quotients are exact.
  \<^item> \<open>time.Time\<close> and \<open>time.Duration\<close> are integers counting nanoseconds; the value
    of \<open>time.Now()\<close> is an input.
  \<^item> The columns gorm manages by itself (ID, CreatedAt, UpdatedAt, DeletedAt) are left
    out of the records.
\<close>

type_synonym rune = int
type_synonym gostring = "rune list"

text \<open>The value a 64-bit signed Go integer takes for the mathematical result \<open>x\<close>.\<close>

definition wrap64 :: "int \<Rightarrow> int" where
  "wrap64 x = (x + 2 ^ 63) mod 2 ^ 64 - 2 ^ 63"

definition ascii :: "string \<Rightarrow> gostring" where
  "ascii s = map of_char s"

text \<open>models.Message, models.Summary, models.Style (the fields the code reads or writes).\<close>

record Message =
  SenderID :: gostring
  Content :: gostring

record Summary =
  sum_ConversationID :: nat
  Prompt :: gostring
  KeyInfo :: gostring
  sum_LastMessageCount :: int
  sum_LastUpdatedAt :: int
  Version :: int

record Style =
  sty_ConversationID :: nat
  UserID :: gostring
  Features :: gostring
  Description :: gostring
  LastMessageCount :: int
  LastUpdatedAt :: int

text \<open>models.AutocompleteRequest, models.AutocompleteResponse.\<close>

record AutocompleteRequest =
  req_ConversationID :: gostring
  req_SenderID :: gostring
  Input :: gostring
  MaxSuggestions :: int

record AutocompleteResponse =
  Suggestions :: "gostring list"
  ContextUsed :: gostring

text \<open>config.SummaryConfig, config.StyleConfig, config.AutocompleteConfig.\<close>

record SummaryConfig =
  sum_UpdateThresholdMessages :: int
  UpdateThresholdHours :: int
  AutoUpdate :: bool

record StyleConfig =
  UpdateThresholdMessages :: int
  Enabled :: bool

record AutocompleteConfig =
  MinTriggerLength :: int
  SuggestionCount :: int
  DebounceMs :: int

text \<open>
  Errors, named after the place that returns them (the Go code wraps the underlying
  error in a message of its own with \<open>fmt.Errorf\<close>).
\<close>

datatype error =
    QuerySummaryFailed | CreateSummaryFailed | GenerateSummaryFailed | SaveSummaryFailed
  | QueryStyleFailed | CreateStyleFailed | MarshalStyleFailed | SaveStyleFailed
  | QueryConversationFailed | BuildContextFailed | CompleteFailed

text \<open>A run-time panic (a slice bound out of range).\<close>

datatype panic = SliceBoundsOutOfRange

text \<open>
  The store: one summary row per conversation and one style row per (conversation,
  user), as \<open>GetOrCreateSummary\<close> and \<open>GetOrCreateStyle\<close> look them up, and the
  messages of each conversation in ascending order of sequence and creation time.
\<close>

record database =
  summaries :: "nat \<rightharpoonup> Summary"
  styles :: "nat \<times> gostring \<rightharpoonup> Style"
  conversation_messages :: "nat \<Rightarrow> Message list"

text \<open>
  What the outside answers during one call: whether each database operation fails, and
  the clock read by \<open>GetOrCreate...\<close> (when it creates a row) and by \<open>Update...\<close>.
  \<open>first_fails\<close> stands for an error of \<open>First\<close> other than \<open>ErrRecordNotFound\<close>.
\<close>

record outside =
  first_fails :: bool
  create_fails :: bool
  save_fails :: bool
  now_create :: int
  now_update :: int

section \<open>Refresh policies\<close>

text \<open>\<open>time.Hour\<close>, in nanoseconds, and the bounds of \<open>time.Duration\<close>.\<close>

definition Hour :: int where
  "Hour = 3600000000000"

definition maxDuration :: int where
  "maxDuration = 2 ^ 63 - 1"

definition minDuration :: int where
  "minDuration = - (2 ^ 63)"

text \<open>\<open>time.Since(t)\<close> at the instant \<open>now\<close>: \<open>now.Sub(t)\<close>, which saturates at the
  bounds of \<open>time.Duration\<close>.\<close>

definition time_Since :: "int \<Rightarrow> int \<Rightarrow> int" where
  "time_Since now t =
     (let d = now - t in
      if d > maxDuration then maxDuration
      else if d < minDuration then minDuration
      else d)"

text \<open>summary.Manager.ShouldUpdateSummary.\<close>

definition ShouldUpdateSummary :: "SummaryConfig \<Rightarrow> int \<Rightarrow> Summary \<Rightarrow> int \<Rightarrow> bool" where
  "ShouldUpdateSummary cfg now summary currentMessageCount =
     (if \<not> AutoUpdate cfg then False
      else if currentMessageCount - sum_LastMessageCount summary \<ge> sum_UpdateThresholdMessages cfg
        then True
      else if time_Since now (sum_LastUpdatedAt summary) \<ge> UpdateThresholdHours cfg * Hour
        then True
      else False)"

text \<open>style.Manager.ShouldUpdateStyle.\<close>

definition ShouldUpdateStyle :: "StyleConfig \<Rightarrow> Style \<Rightarrow> int \<Rightarrow> bool" where
  "ShouldUpdateStyle cfg style currentMessageCount =
     (if \<not> Enabled cfg then False
      else if currentMessageCount - LastMessageCount style \<ge> UpdateThresholdMessages cfg
        then True
      else False)"

section \<open>Strings\<close>

text \<open>\<open>strings.HasPrefix\<close>.\<close>

definition strings_HasPrefix :: "gostring \<Rightarrow> gostring \<Rightarrow> bool" where
  "strings_HasPrefix s p = (take (length p) s = p)"

text \<open>\<open>strings.Index(s, sub)\<close>: the position of the first occurrence of \<open>sub\<close> in
  \<open>s\<close>, or -1.\<close>

fun strings_Index :: "gostring \<Rightarrow> gostring \<Rightarrow> int" where
  "strings_Index [] sub = (if sub = [] then 0 else - 1)"
| "strings_Index (c # cs) sub =
     (if strings_HasPrefix (c # cs) sub then 0
      else (let i = strings_Index cs sub in if i = - 1 then - 1 else i + 1))"

text \<open>\<open>strings.Split(s, sep)\<close>: the pieces of \<open>s\<close> between the occurrences of
  \<open>sep\<close>, empty pieces included; an empty \<open>sep\<close> splits after each rune.\<close>

function split_from :: "gostring \<Rightarrow> gostring \<Rightarrow> gostring \<Rightarrow> gostring list" where
  "split_from sep piece [] = [piece]"
| "split_from sep piece (c # cs) =
     (if sep \<noteq> [] \<and> strings_HasPrefix (c # cs) sep
      then piece # split_from sep [] (drop (length sep) (c # cs))
      else split_from sep (piece @ [c]) cs)"
  by pat_completeness auto
termination
  by (relation "measure (\<lambda>(sep, piece, s). length s)") auto

definition strings_Split :: "gostring \<Rightarrow> gostring \<Rightarrow> gostring list" where
  "strings_Split s sep = (if sep = [] then map (\<lambda>c. [c]) s else split_from sep [] s)"

text \<open>\<open>unicode.IsSpace\<close>.\<close>

definition unicode_IsSpace :: "rune \<Rightarrow> bool" where
  "unicode_IsSpace r =
     (r \<in> set [9, 10, 11, 12, 13, 32, 133, 160, 5760, 8232, 8233, 8239, 8287, 12288]
      \<or> (8192 \<le> r \<and> r \<le> 8202))"

text \<open>\<open>strings.Fields(s)\<close>: the maximal runs of runes that are not white space.\<close>

fun fields_from :: "gostring \<Rightarrow> gostring \<Rightarrow> gostring list" where
  "fields_from word [] = (if word = [] then [] else [word])"
| "fields_from word (c # cs) =
     (if unicode_IsSpace c
      then (if word = [] then fields_from [] cs else word # fields_from [] cs)
      else fields_from (word @ [c]) cs)"

definition strings_Fields :: "gostring \<Rightarrow> gostring list" where
  "strings_Fields s = fields_from [] s"

text \<open>\<open>strings.Join(elems, sep)\<close>.\<close>

fun strings_Join :: "gostring list \<Rightarrow> gostring \<Rightarrow> gostring" where
  "strings_Join [] sep = []"
| "strings_Join [e] sep = e"
| "strings_Join (e # es) sep = e @ sep @ strings_Join es sep"

section \<open>Context truncation\<close>




section \<open>Style engine\<close>

text \<open>style.StyleFeatures. A Go map that is only indexed is a partial function.\<close>

record StyleFeatures =
  Vocabulary :: "gostring \<rightharpoonup> int"
  SentenceLength :: real
  EmojiUsage :: real
  Tone :: gostring
  Punctuation :: "gostring \<rightharpoonup> int"
  CommonPhrases :: "gostring list"

text \<open>\<open>m[k]++\<close> on a Go map: a missing key reads as 0.\<close>

definition increment :: "(gostring \<rightharpoonup> int) \<Rightarrow> gostring \<Rightarrow> (gostring \<rightharpoonup> int)" where
  "increment m k = m(k \<mapsto> (case m k of None \<Rightarrow> 0 | Some c \<Rightarrow> c) + 1)"

text \<open>
  \<open>wordFreq\<close> is a Go map that \<open>getTopN\<close> ranges over. It is kept as an association
  list with one entry per key, a new key going to the end; \<open>wordFreq[word]++\<close> is:
\<close>

fun increment_entry :: "(gostring \<times> int) list \<Rightarrow> gostring \<Rightarrow> (gostring \<times> int) list" where
  "increment_entry [] w = [(w, 1)]"
| "increment_entry ((k, c) # rest) w =
     (if k = w then (k, c + 1) # rest else (k, c) # increment_entry rest w)"

text \<open>The full stop U+3002 on which sentences are split, and the punctuation marks
  counted: U+FF0C U+3002 U+FF01 U+FF1F U+3001 U+FF1B U+FF1A.\<close>

definition full_stop :: gostring where
  "full_stop = [12290]"

definition punctuation_marks :: gostring where
  "punctuation_marks = [65292, 12290, 65281, 65311, 12289, 65307, 65306]"

text \<open>The running totals of the first loop of \<open>analyzeStyle\<close>.\<close>

record totals =
  totalLength :: int
  emojiCount :: int
  totalChars :: int
  punctuation :: "gostring \<rightharpoonup> int"
  wordFreq :: "(gostring \<times> int) list"

text \<open>The body of that loop, for one message.\<close>

definition scan_message :: "totals \<Rightarrow> Message \<Rightarrow> totals" where
  "scan_message a msg =
     (let content = Content msg;
          sentences = strings_Split content full_stop;
          words = strings_Fields content
      in a\<lparr>totalChars := totalChars a + int (length content),
            totalLength :=
              foldl (\<lambda>t s. if length s > 0 then t + int (length s) else t) (totalLength a) sentences,
            emojiCount :=
              foldl (\<lambda>e r. if r \<ge> 127744 \<and> r \<le> 129535 then e + 1 else e) (emojiCount a) content,
            punctuation :=
              foldl (\<lambda>p r. if r \<in> set punctuation_marks then increment p [r] else p)
                (punctuation a) content,
            wordFreq :=
              foldl (\<lambda>f word. if length word \<ge> 2 then increment_entry f word else f)
                (wordFreq a) words\<rparr>)"

text \<open>
  style.getTopN, from the slice \<open>words\<close> on: the inner loop looks for the largest count
  from position \<open>i\<close> on, the outer loop swaps it to position \<open>i\<close> and records it, while
  \<open>i < len(words)-1 && i < n\<close>.
\<close>

function getTopN_inner :: "(gostring \<times> int) list \<Rightarrow> nat \<Rightarrow> nat \<Rightarrow> nat" where
  "getTopN_inner words maxIdx j =
     (if j < length words
      then getTopN_inner words (if snd (words ! j) > snd (words ! maxIdx) then j else maxIdx) (j + 1)
      else maxIdx)"
  by pat_completeness auto
termination
  by (relation "measure (\<lambda>(words, maxIdx, j). length words - j)") auto

function getTopN_outer ::
  "(gostring \<times> int) list \<Rightarrow> int \<Rightarrow> nat \<Rightarrow> (gostring \<rightharpoonup> int) \<Rightarrow> (gostring \<rightharpoonup> int)" where
  "getTopN_outer words n i result =
     (if int i < int (length words) - 1 \<and> int i < n
      then getTopN_outer
             (words[i := words ! getTopN_inner words i (i + 1),
                    getTopN_inner words i (i + 1) := words ! i])
             n (i + 1)
             (result(fst (words ! getTopN_inner words i (i + 1))
                       \<mapsto> snd (words ! getTopN_inner words i (i + 1))))
      else result)"
  by pat_completeness auto
termination
  by (relation "measure (\<lambda>(words, n, i, result). length words - i)") auto

declare getTopN_inner.simps [simp del] getTopN_outer.simps [simp del]

text \<open>
  \<open>getTopN\<close> takes the entries of the map in the order in which \<open>range\<close> yields them,
  which Go leaves open.
\<close>

definition getTopN :: "(gostring \<times> int) list \<Rightarrow> int \<Rightarrow> (gostring \<rightharpoonup> int)" where
  "getTopN words n = getTopN_outer words n 0 Map.empty"

text \<open>
  style.Manager.analyzeStyle. \<open>order\<close> is the order in which \<open>range\<close> yields the entries
  of \<open>wordFreq\<close>. Copying \<open>topWords\<close> into the empty \<open>Vocabulary\<close> gives \<open>topWords\<close>.
\<close>

definition analyzeStyle ::
  "((gostring \<times> int) list \<Rightarrow> (gostring \<times> int) list) \<Rightarrow> Message list \<Rightarrow> StyleFeatures" where
  "analyzeStyle order messages =
     (let a = foldl scan_message
                \<lparr>totalLength = 0, emojiCount = 0, totalChars = 0,
                 punctuation = Map.empty, wordFreq = []\<rparr> messages;
          sentenceCount =
            foldl (\<lambda>n msg. n + int (length (strings_Split (Content msg) full_stop))) 0 messages;
          sentenceLength =
            (if sentenceCount > 0 then real_of_int (totalLength a) / real_of_int sentenceCount
             else 0);
          emojiUsage =
            (if totalChars a > 0
             then real_of_int (emojiCount a) / real_of_int (totalChars a) * 100
             else 0);
          topWords = getTopN (order (wordFreq a)) 10;
          tone =
            (if sentenceLength < 10 \<and> emojiUsage > 2 then ascii ''casual''
             else if sentenceLength > 30 then ascii ''formal''
             else ascii ''friendly'')
      in \<lparr>Vocabulary = topWords, SentenceLength = sentenceLength, EmojiUsage = emojiUsage,
          Tone = tone, Punctuation = punctuation a, CommonPhrases = []\<rparr>)"

text \<open>
  The average sentence length as the specification words it: the summed rune length of the
  non-empty segments of all messages, divided by the number of those segments.
\<close>

definition nonempty_segments :: "Message list \<Rightarrow> gostring list" where
  "nonempty_segments messages =
     concat (map (\<lambda>msg. filter (\<lambda>s. s \<noteq> []) (strings_Split (Content msg) full_stop)) messages)"

definition spec_average_sentence_length :: "Message list \<Rightarrow> real" where
  "spec_average_sentence_length messages =
     real (sum_list (map length (nonempty_segments messages)))
       / real (length (nonempty_segments messages))"

text \<open>
  style.Manager.generateDescription. \<open>format_1f\<close> renders a \<open>float64\<close> as \<open>%.1f\<close>
  does. The literals are, in order: U+8BED U+6C14 U+FF1A; U+FF0C; U+5E73 U+5747 U+53E5
  U+5B50 U+957F U+5EA6 U+FF1A; U+5B57 U+FF0C; U+7ECF U+5E38 U+4F7F U+7528 U+8868 U+60C5
  U+7B26 U+53F7 U+FF0C; U+5E38 U+7528 U+77ED U+8BED U+FF1A; and the separator U+3001.
\<close>

definition generateDescription :: "(real \<Rightarrow> gostring) \<Rightarrow> StyleFeatures \<Rightarrow> gostring" where
  "generateDescription format_1f features =
     [35821, 27668, 65306] @ Tone features @ [65292]
     @ [24179, 22343, 21477, 23376, 38271, 24230, 65306]
         @ format_1f (SentenceLength features) @ [23383, 65292]
     @ (if EmojiUsage features > 2
        then [32463, 24120, 20351, 29992, 34920, 24773, 31526, 21495, 65292] else [])
     @ (if length (CommonPhrases features) > 0
        then [24120, 29992, 30701, 35821, 65306]
             @ strings_Join
                 (take (min 3 (length (CommonPhrases features))) (CommonPhrases features))
                 [12289]
        else [])"

text \<open>
  What the model takes from the Go runtime and library: \<open>json.Marshal\<close> on the features
  (\<open>None\<close> for an error), the rendering of \<open>%.1f\<close>, and the order of \<open>range\<close> over a
  map.
\<close>

record runtime =
  json_Marshal :: "StyleFeatures \<Rightarrow> gostring option"
  format_1f :: "real \<Rightarrow> gostring"
  range_order :: "(gostring \<times> int) list \<Rightarrow> (gostring \<times> int) list"

text \<open>style.Manager.GetOrCreateStyle: the row found, or a fresh row stored.\<close>

definition GetOrCreateStyle ::
  "outside \<Rightarrow> database \<Rightarrow> nat \<Rightarrow> gostring \<Rightarrow> (error + Style) \<times> database" where
  "GetOrCreateStyle out db conversationID userID =
     (if first_fails out then (Inl QueryStyleFailed, db)
      else
        (case styles db (conversationID, userID) of
           Some style \<Rightarrow> (Inr style, db)
         | None \<Rightarrow>
             (let style = \<lparr>sty_ConversationID = conversationID, UserID = userID,
                           Features = ascii ''{}'', Description = [],
                           LastMessageCount = 0, LastUpdatedAt = now_create out\<rparr>
              in if create_fails out then (Inl CreateStyleFailed, db)
                 else (Inr style, db\<lparr>styles := (styles db)((conversationID, userID) \<mapsto> style)\<rparr>))))"

text \<open>style.Manager.UpdateStyle: the error returned (\<open>None\<close> for \<open>nil\<close>) and the store
  afterwards.\<close>

definition UpdateStyle ::
  "StyleConfig \<Rightarrow> runtime \<Rightarrow> outside \<Rightarrow> database \<Rightarrow> nat \<Rightarrow> gostring \<Rightarrow> Message list
     \<Rightarrow> error option \<times> database" where
  "UpdateStyle cfg rt out db conversationID userID messages =
     (if \<not> Enabled cfg then (None, db)
      else
        (let userMessages = filter (\<lambda>msg. SenderID msg = userID) messages
         in if length userMessages = 0 then (None, db)
            else
              (let features = analyzeStyle (range_order rt) userMessages;
                   description = generateDescription (format_1f rt) features
               in case json_Marshal rt features of
                    None \<Rightarrow> (Some MarshalStyleFailed, db)
                  | Some featuresJSON \<Rightarrow>
                      (case GetOrCreateStyle out db conversationID userID of
                         (Inl err, db1) \<Rightarrow> (Some err, db1)
                       | (Inr style, db1) \<Rightarrow>
                           (let style1 = style\<lparr>Features := featuresJSON,
                                               Description := description,
                                               LastMessageCount := int (length userMessages),
                                               LastUpdatedAt := now_update out\<rparr>
                            in if save_fails out then (Some SaveStyleFailed, db1)
                               else (None,
                                     db1\<lparr>styles :=
                                            (styles db1)((conversationID, userID) \<mapsto> style1)\<rparr>))))))"

section \<open>Summary scheduler\<close>

text \<open>summary.Manager.GetOrCreateSummary.\<close>

definition GetOrCreateSummary ::
  "outside \<Rightarrow> database \<Rightarrow> nat \<Rightarrow> (error + Summary) \<times> database" where
  "GetOrCreateSummary out db conversationID =
     (if first_fails out then (Inl QuerySummaryFailed, db)
      else
        (case summaries db conversationID of
           Some summary \<Rightarrow> (Inr summary, db)
         | None \<Rightarrow>
             (let summary = \<lparr>sum_ConversationID = conversationID, Prompt = [],
                             KeyInfo = ascii ''[]'', sum_LastMessageCount = 0,
                             sum_LastUpdatedAt = now_create out, Version = 1\<rparr>
              in if create_fails out then (Inl CreateSummaryFailed, db)
                 else (Inr summary, db\<lparr>summaries := (summaries db)(conversationID \<mapsto> summary)\<rparr>))))"

text \<open>
  summary.Manager.UpdateSummary. \<open>llm\<close> is \<open>LLMInterface.GenerateSummary\<close>: the prompt and
  the key information, or \<open>None\<close> for an error.
\<close>

definition UpdateSummary ::
  "(Message list \<Rightarrow> Summary \<Rightarrow> (gostring \<times> gostring) option) \<Rightarrow> outside \<Rightarrow> database
     \<Rightarrow> nat \<Rightarrow> Message list \<Rightarrow> error option \<times> database" where
  "UpdateSummary llm out db conversationID messages =
     (case GetOrCreateSummary out db conversationID of
        (Inl err, db1) \<Rightarrow> (Some err, db1)
      | (Inr summary, db1) \<Rightarrow>
          (case llm messages summary of
             None \<Rightarrow> (Some GenerateSummaryFailed, db1)
           | Some (prompt, keyInfo) \<Rightarrow>
               (let summary1 = summary\<lparr>Prompt := prompt, KeyInfo := keyInfo,
                                       sum_LastMessageCount := int (length messages),
                                       sum_LastUpdatedAt := now_update out,
                                       Version := Version summary + 1\<rparr>
                in if save_fails out then (Some SaveSummaryFailed, db1)
                   else (None, db1\<lparr>summaries := (summaries db1)(conversationID \<mapsto> summary1)\<rparr>))))"

section \<open>Completion engine\<close>

text \<open>
  autocomplete.Engine: its configuration and its three collaborators, each as the
  function from its arguments to its answer (\<open>None\<close> for an error): the lookup of the
  conversation by its external identifier, \<open>contextMgr.BuildContext\<close> and
  \<open>llmClient.Complete\<close>.
\<close>

record Engine =
  config :: AutocompleteConfig
  db_First_conversation :: "gostring \<Rightarrow> nat option"
  contextMgr_BuildContext :: "nat \<Rightarrow> gostring \<Rightarrow> gostring \<Rightarrow> gostring option"
  llmClient_Complete :: "gostring \<Rightarrow> gostring \<Rightarrow> gostring list option"

text \<open>The calls made to the collaborators, in order.\<close>

datatype call =
    ConversationLookup gostring
  | BuildContextCall nat gostring gostring
  | CompleteCall gostring gostring

text \<open>
  autocomplete.Engine.GetSuggestions: what it returns (an error, or the response; a panic
  when \<open>suggestions[:maxSuggestions]\<close> has a negative bound) and the calls it made.
\<close>

definition GetSuggestions ::
  "Engine \<Rightarrow> AutocompleteRequest \<Rightarrow> (panic + error + AutocompleteResponse) \<times> call list" where
  "GetSuggestions e req =
     (if int (length (Input req)) < MinTriggerLength (config e)
      then (Inr (Inr \<lparr>Suggestions = [], ContextUsed = []\<rparr>), [])
      else
        (case db_First_conversation e (req_ConversationID req) of
           None \<Rightarrow> (Inr (Inl QueryConversationFailed), [ConversationLookup (req_ConversationID req)])
         | Some conversation \<Rightarrow>
             (case contextMgr_BuildContext e conversation (req_SenderID req) (Input req) of
                None \<Rightarrow>
                  (Inr (Inl BuildContextFailed),
                   [ConversationLookup (req_ConversationID req),
                    BuildContextCall conversation (req_SenderID req) (Input req)])
              | Some ctx \<Rightarrow>
                  (let maxSuggestions =
                         (if MaxSuggestions req > 0 then MaxSuggestions req
                          else SuggestionCount (config e));
                       calls = [ConversationLookup (req_ConversationID req),
                                BuildContextCall conversation (req_SenderID req) (Input req),
                                CompleteCall ctx (Input req)]
                   in case llmClient_Complete e ctx (Input req) of
                        None \<Rightarrow> (Inr (Inl CompleteFailed), calls)
                      | Some suggestions \<Rightarrow>
                          (if int (length suggestions) > maxSuggestions
                           then (if maxSuggestions < 0 then (Inl SliceBoundsOutOfRange, calls)
                                 else (Inr (Inr \<lparr>Suggestions = take (nat maxSuggestions) suggestions,
                                                 ContextUsed = ctx\<rparr>), calls))
                           else (Inr (Inr \<lparr>Suggestions = suggestions, ContextUsed = ctx\<rparr>),
                                 calls))))))"

section \<open>Background refresh\<close>

text \<open>
  What the outside answers during one run of \<open>updateSummaryAndStyle\<close>: whether the query
  for the messages fails, the clock read by \<open>time.Since\<close>, and the answers to each of the
  four calls it may make.
\<close>

record refresh_outside =
  find_messages_fails :: bool
  clock :: int
  summary_lookup :: outside
  summary_update :: outside
  style_lookup :: outside
  style_update :: outside

text \<open>
  api.Handler.updateSummaryAndStyle: it loads all messages of the conversation and offers
  their number to both refresh policies; errors of the updates are logged and dropped. The
  result is the store afterwards.
\<close>

definition updateSummaryAndStyle ::
  "SummaryConfig \<Rightarrow> StyleConfig \<Rightarrow> (Message list \<Rightarrow> Summary \<Rightarrow> (gostring \<times> gostring) option)
     \<Rightarrow> runtime \<Rightarrow> refresh_outside \<Rightarrow> database \<Rightarrow> nat \<Rightarrow> gostring \<Rightarrow> database" where
  "updateSummaryAndStyle summaryCfg styleCfg llm rt out db conversationID senderID =
     (if find_messages_fails out then db
      else
        (let messages = conversation_messages db conversationID;
             (summary, db1) = GetOrCreateSummary (summary_lookup out) db conversationID;
             db2 = (case summary of
                      Inr summary1 \<Rightarrow>
                        (if ShouldUpdateSummary summaryCfg (clock out) summary1
                              (int (length messages))
                         then snd (UpdateSummary llm (summary_update out) db1 conversationID
                                     messages)
                         else db1)
                    | Inl err \<Rightarrow> db1);
             (style, db3) = GetOrCreateStyle (style_lookup out) db2 conversationID senderID
         in case style of
              Inr style1 \<Rightarrow>
                (if ShouldUpdateStyle styleCfg style1 (int (length messages))
                 then snd (UpdateStyle styleCfg rt (style_update out) db3 conversationID senderID
                             messages)
                 else db3)
            | Inl err \<Rightarrow> db3))"

section \<open>Example inputs\<close>

text \<open>Concrete values at which the theorems below are instantiated.\<close>

definition msg_u :: Message where
  "msg_u = \<lparr>SenderID = ascii ''u'', Content = ascii ''hello''\<rparr>"

definition msg_v :: Message where
  "msg_v = \<lparr>SenderID = ascii ''v'', Content = ascii ''hi there''\<rparr>"

text \<open>U+4F60 U+597D followed by the full stop U+3002.\<close>

definition msg_full_stop :: Message where
  "msg_full_stop = \<lparr>SenderID = ascii ''u'', Content = [20320, 22909, 12290]\<rparr>"

definition msg_two_words :: Message where
  "msg_two_words = \<lparr>SenderID = ascii ''u'', Content = ascii ''hello world hello''\<rparr>"






definition stored_summary :: Summary where
  "stored_summary =
     \<lparr>sum_ConversationID = 1, Prompt = ascii ''old'', KeyInfo = ascii ''[]'',
      sum_LastMessageCount = 0, sum_LastUpdatedAt = 0, Version = 1\<rparr>"

definition stored_style :: Style where
  "stored_style =
     \<lparr>sty_ConversationID = 1, UserID = ascii ''u'', Features = ascii ''{}'',
      Description = [], LastMessageCount = 0, LastUpdatedAt = 0\<rparr>"

definition example_db :: database where
  "example_db =
     \<lparr>summaries = [1 \<mapsto> stored_summary], styles = [(1, ascii ''u'') \<mapsto> stored_style],
      conversation_messages = (\<lambda>conversation. [msg_u, msg_v, msg_u])\<rparr>"

definition all_succeed :: outside where
  "all_succeed =
     \<lparr>first_fails = False, create_fails = False, save_fails = False,
      now_create = 1000, now_update = 2000\<rparr>"

definition save_fails_only :: outside where
  "save_fails_only =
     \<lparr>first_fails = False, create_fails = False, save_fails = True,
      now_create = 1000, now_update = 2000\<rparr>"

definition example_llm :: "Message list \<Rightarrow> Summary \<Rightarrow> (gostring \<times> gostring) option" where
  "example_llm messages summary = Some (ascii ''new'', ascii ''[1]'')"

definition failing_llm :: "Message list \<Rightarrow> Summary \<Rightarrow> (gostring \<times> gostring) option" where
  "failing_llm messages summary = None"

definition example_runtime :: runtime where
  "example_runtime =
     \<lparr>json_Marshal = (\<lambda>features. Some (ascii ''{...}'')),
      format_1f = (\<lambda>x. ascii ''0.0''),
      range_order = (\<lambda>entries. entries)\<rparr>"

definition style_enabled :: StyleConfig where
  "style_enabled = \<lparr>UpdateThresholdMessages = 20, Enabled = True\<rparr>"

definition style_disabled :: StyleConfig where
  "style_disabled = \<lparr>UpdateThresholdMessages = 20, Enabled = False\<rparr>"

definition example_engine :: Engine where
  "example_engine =
     \<lparr>config = \<lparr>MinTriggerLength = 2, SuggestionCount = 3, DebounceMs = 300\<rparr>,
      db_First_conversation = (\<lambda>externalID. Some 1),
      contextMgr_BuildContext = (\<lambda>conversation sender input. Some input),
      llmClient_Complete = (\<lambda>ctx input. Some [input])\<rparr>"

definition short_request :: AutocompleteRequest where
  "short_request =
     \<lparr>req_ConversationID = ascii ''c1'', req_SenderID = ascii ''u'', Input = ascii ''h'',
      MaxSuggestions = 0\<rparr>"

section \<open>Properties\<close>

subsection \<open>Machine integers\<close>

text \<open>
  Where the integer arithmetic of the model is the 64-bit arithmetic of the code: the
  difference of two message counts, the version counter incremented, a threshold of up to
  2562047 hours (292 years) turned into nanoseconds, and a budget minus a length minus 100.
\<close>

lemma wrap64_exact: "- (2 ^ 63) \<le> x \<Longrightarrow> x < 2 ^ 63 \<Longrightarrow> wrap64 x = x"
  by (simp add: wrap64_def)

lemma count_difference_exact:
  "0 \<le> a \<Longrightarrow> a < 2 ^ 63 \<Longrightarrow> 0 \<le> b \<Longrightarrow> b < 2 ^ 63 \<Longrightarrow> wrap64 (a - b) = a - b"
  by (rule wrap64_exact) simp_all

lemma version_increment_exact:
  "0 \<le> v \<Longrightarrow> v < 2 ^ 63 - 1 \<Longrightarrow> wrap64 (v + 1) = v + 1"
  by (rule wrap64_exact) simp_all

lemma hour_threshold_exact:
  "- 2562047 \<le> h \<Longrightarrow> h \<le> 2562047 \<Longrightarrow> wrap64 (h * Hour) = h * Hour"
  by (rule wrap64_exact) (simp_all add: Hour_def)

lemma budget_exact:
  "- (2 ^ 62) \<le> maxLength \<Longrightarrow> maxLength < 2 ^ 63 \<Longrightarrow> 0 \<le> n \<Longrightarrow> n < 2 ^ 61 \<Longrightarrow>
     wrap64 (wrap64 (maxLength - n) - 100) = maxLength - n - 100"
proof -
  assume a: "- (2 ^ 62) \<le> maxLength" "maxLength < 2 ^ 63" "0 \<le> n" "n < 2 ^ 61"
  then have "wrap64 (maxLength - n) = maxLength - n"
    by (intro wrap64_exact) simp_all
  moreover from a have "wrap64 (maxLength - n - 100) = maxLength - n - 100"
    by (intro wrap64_exact) simp_all
  ultimately show ?thesis by simp
qed

subsection \<open>Refresh policies\<close>

text \<open>
  C5. ShouldUpdateStyle is false when style learning is disabled, and otherwise true
  exactly when the current message count minus the profile's last message count reaches
  the update threshold. The profile's last-updated timestamp plays no part: replacing it
  by any other instant leaves the answer unchanged.
\<close>

theorem ShouldUpdateStyle_count_only:
  "ShouldUpdateStyle cfg style n =
     (Enabled cfg \<and> n - LastMessageCount style \<ge> UpdateThresholdMessages cfg)
   \<and> ShouldUpdateStyle cfg (style\<lparr>LastUpdatedAt := t\<rparr>) n = ShouldUpdateStyle cfg style n"
  by (simp add: ShouldUpdateStyle_def)

lemma time_Since_exact:
  "minDuration \<le> now - t \<Longrightarrow> now - t \<le> maxDuration \<Longrightarrow> time_Since now t = now - t"
  by (simp add: time_Since_def Let_def)


subsection \<open>Context truncation\<close>

text \<open>\<open>strings.Index\<close> returns -1 or a position of the string, at which the needle
  occurs and before which it does not.\<close>

lemma strings_Index_range:
  "strings_Index s sub = - 1 \<or> (0 \<le> strings_Index s sub \<and> strings_Index s sub \<le> int (length s))"
  by (induction s) (auto simp: Let_def)

lemma strings_Index_nonneg: "strings_Index s sub \<noteq> - 1 \<Longrightarrow> 0 \<le> strings_Index s sub"
  using strings_Index_range [of s sub] by auto


lemma strings_Index_occurs:
  "strings_Index s sub \<noteq> - 1 \<Longrightarrow> strings_HasPrefix (drop (nat (strings_Index s sub)) s) sub"
proof (induction s)
  case Nil
  then show ?case by (simp add: strings_HasPrefix_def split: if_splits)
next
  case (Cons c cs)
  show ?case
  proof (cases "strings_HasPrefix (c # cs) sub")
    case True
    then show ?thesis by simp
  next
    case False
    with Cons.prems have found: "strings_Index cs sub \<noteq> - 1"
      by (auto simp: Let_def split: if_splits)
    then have nn: "0 \<le> strings_Index cs sub" by (rule strings_Index_nonneg)
    from False found have "strings_Index (c # cs) sub = strings_Index cs sub + 1"
      by (simp add: Let_def)
    moreover from nn have "nat (strings_Index cs sub + 1) = Suc (nat (strings_Index cs sub))"
      by simp
    ultimately show ?thesis using Cons.IH [OF found] by simp
  qed
qed

lemma strings_Index_first:
  "strings_Index s sub \<noteq> - 1 \<Longrightarrow> j < nat (strings_Index s sub) \<Longrightarrow>
     \<not> strings_HasPrefix (drop j s) sub"
proof (induction s arbitrary: j)
  case Nil
  then show ?case by (simp split: if_splits)
next
  case (Cons c cs)
  show ?case
  proof (cases "strings_HasPrefix (c # cs) sub")
    case True
    with Cons.prems show ?thesis by simp
  next
    case False
    with Cons.prems have found: "strings_Index cs sub \<noteq> - 1"
      by (auto simp: Let_def split: if_splits)
    then have nn: "0 \<le> strings_Index cs sub" by (rule strings_Index_nonneg)
    from False found have eq: "strings_Index (c # cs) sub = strings_Index cs sub + 1"
      by (simp add: Let_def)
    show ?thesis
    proof (cases j)
      case 0
      with False show ?thesis by simp
    next
      case (Suc k)
      with Cons.prems(2) eq nn have "k < nat (strings_Index cs sub)" by simp
      from Cons.IH [OF found this] Suc show ?thesis by simp
    qed
  qed
qed

lemma strings_Index_absent:
  "strings_Index s sub = - 1 \<Longrightarrow> \<not> strings_HasPrefix (drop j s) sub"
proof (induction s arbitrary: j)
  case Nil
  then show ?case by (simp add: strings_HasPrefix_def split: if_splits)
next
  case (Cons c cs)
  from Cons.prems have nohead: "\<not> strings_HasPrefix (c # cs) sub"
    by (auto split: if_splits)
  from Cons.prems nohead strings_Index_range [of cs sub]
  have rest: "strings_Index cs sub = - 1"
    by (auto simp: Let_def split: if_splits)
  show ?case
  proof (cases j)
    case 0
    with nohead show ?thesis by simp
  next
    case (Suc k)
    with Cons.IH [OF rest] show ?thesis by simp
  qed
qed

text \<open>So the header is found exactly when it occurs somewhere in the context.\<close>

lemma strings_Index_found_iff:
  "(strings_Index s sub \<noteq> - 1) = (\<exists>j. strings_HasPrefix (drop j s) sub)"
  using strings_Index_occurs [of s sub] strings_Index_absent [of s sub] by blast



subsection \<open>Completion engine\<close>

text \<open>
  C6. For a request whose input has fewer runes than the configured minimum trigger
  length, GetSuggestions returns a response with an empty suggestion list and no error,
  and makes no call at all: it does not look the conversation up, does not build a
  context and does not invoke the completion provider.
\<close>

theorem GetSuggestions_short_input:
  assumes "int (length (Input req)) < MinTriggerLength (config e)"
  shows "GetSuggestions e req = (Inr (Inr \<lparr>Suggestions = [], ContextUsed = []\<rparr>), [])"
  using assms by (simp add: GetSuggestions_def)

theorem GetSuggestions_short_input_witness:
  "int (length (Input short_request)) < MinTriggerLength (config example_engine)
   \<and> GetSuggestions example_engine short_request
       = (Inr (Inr \<lparr>Suggestions = [], ContextUsed = []\<rparr>), [])"
proof -
  have short: "int (length (Input short_request)) < MinTriggerLength (config example_engine)"
    by (simp add: short_request_def example_engine_def ascii_def)
  from GetSuggestions_short_input [OF short] short show ?thesis by simp
qed

text \<open>With an input that is long enough the conversation is looked up first, so the list
  of calls does tell the two cases apart.\<close>

lemma GetSuggestions_long_input_calls:
  assumes "\<not> int (length (Input req)) < MinTriggerLength (config e)"
  shows "\<exists>calls. snd (GetSuggestions e req) = ConversationLookup (req_ConversationID req) # calls"
  using assms by (auto simp: GetSuggestions_def Let_def split: option.splits)

subsection \<open>Summary scheduler\<close>

text \<open>
  C3, as amended. For a conversation with a stored summary and any message list: when the
  lookup, the summarization provider and the save all succeed, UpdateSummary returns no
  error and the stored summary carries the provider's prompt and key information, the
  length of the message list as last message count, the time of the update as timestamp,
  and a version incremented by exactly 1. When the provider returns an error,
  UpdateSummary returns an error and the store is unchanged; when the lookup or the save
  fails, it returns an error and the store is unchanged too.
\<close>

theorem UpdateSummary_refresh:
  assumes "summaries db conversationID = Some summary"
  shows "(\<not> first_fails out \<and> llm messages summary = Some (prompt, keyInfo) \<and> \<not> save_fails out
            \<longrightarrow> UpdateSummary llm out db conversationID messages =
                  (None,
                   db\<lparr>summaries := (summaries db)(conversationID \<mapsto>
                        summary\<lparr>Prompt := prompt, KeyInfo := keyInfo,
                                sum_LastMessageCount := int (length messages),
                                sum_LastUpdatedAt := now_update out,
                                Version := Version summary + 1\<rparr>)\<rparr>))
       \<and> (llm messages summary = None
            \<longrightarrow> UpdateSummary llm out db conversationID messages =
                  (Some (if first_fails out then QuerySummaryFailed else GenerateSummaryFailed), db))
       \<and> (save_fails out \<or> first_fails out
            \<longrightarrow> (\<exists>err. UpdateSummary llm out db conversationID messages = (Some err, db)))"
  using assms
  by (auto simp: UpdateSummary_def GetOrCreateSummary_def Let_def split: option.splits)

theorem UpdateSummary_refresh_witness:
  "summaries example_db 1 = Some stored_summary
   \<and> UpdateSummary example_llm all_succeed example_db 1 [msg_u, msg_v] =
       (None,
        example_db\<lparr>summaries := (summaries example_db)(1 \<mapsto>
          stored_summary\<lparr>Prompt := ascii ''new'', KeyInfo := ascii ''[1]'',
                         sum_LastMessageCount := 2, sum_LastUpdatedAt := 2000,
                         Version := 2\<rparr>)\<rparr>)
   \<and> UpdateSummary failing_llm all_succeed example_db 1 [msg_u, msg_v]
       = (Some GenerateSummaryFailed, example_db)
   \<and> UpdateSummary example_llm save_fails_only example_db 1 [msg_u, msg_v]
       = (Some SaveSummaryFailed, example_db)"
proof -
  have stored: "summaries example_db 1 = Some stored_summary"
    by (simp add: example_db_def)
  note refresh = UpdateSummary_refresh [OF stored]
  have ok: "UpdateSummary example_llm all_succeed example_db 1 [msg_u, msg_v] =
       (None,
        example_db\<lparr>summaries := (summaries example_db)(1 \<mapsto>
          stored_summary\<lparr>Prompt := ascii ''new'', KeyInfo := ascii ''[1]'',
                         sum_LastMessageCount := 2, sum_LastUpdatedAt := 2000,
                         Version := 2\<rparr>)\<rparr>)"
    using refresh [of all_succeed example_llm "[msg_u, msg_v]" "ascii ''new''" "ascii ''[1]''"]
    by (simp add: all_succeed_def example_llm_def stored_summary_def)
  have failed: "UpdateSummary failing_llm all_succeed example_db 1 [msg_u, msg_v]
       = (Some GenerateSummaryFailed, example_db)"
    using refresh [of all_succeed failing_llm "[msg_u, msg_v]"]
    by (simp add: all_succeed_def failing_llm_def)
  have unsaved: "UpdateSummary example_llm save_fails_only example_db 1 [msg_u, msg_v]
       = (Some SaveSummaryFailed, example_db)"
    by (simp add: UpdateSummary_def GetOrCreateSummary_def example_db_def example_llm_def
      save_fails_only_def Let_def)
  from stored ok failed unsaved show ?thesis by blast
qed

text \<open>
  C3 as stated fails where the provider succeeds and the save does not: UpdateSummary
  returns the save error, and the stored prompt, key information, count, timestamp and
  version stay what they were.
\<close>

theorem UpdateSummary_save_failure_counterexample:
  "summaries example_db 1 = Some stored_summary
   \<and> example_llm [msg_u, msg_v] stored_summary = Some (ascii ''new'', ascii ''[1]'')
   \<and> UpdateSummary example_llm save_fails_only example_db 1 [msg_u, msg_v]
       = (Some SaveSummaryFailed, example_db)
   \<and> map_option Version
        (summaries (snd (UpdateSummary example_llm save_fails_only example_db 1 [msg_u, msg_v])) 1)
       = Some (Version stored_summary)"
  by (simp add: UpdateSummary_def GetOrCreateSummary_def example_db_def example_llm_def
      save_fails_only_def Let_def)

subsection \<open>Style engine\<close>


lemmas eval_style =
  analyzeStyle_def scan_message_def Let_def strings_Split_def full_stop_def
  strings_HasPrefix_def ascii_def punctuation_marks_def


text \<open>
  What analyzeStyle computes as the average sentence length: the summed length of the
  segments of all messages over the number of all segments, the empty ones counted.
\<close>

lemma sum_segments:
  "foldl (\<lambda>t s. if s \<noteq> [] then t + int (length s) else t) t0 xs
     = t0 + int (sum_list (map length xs))"
  by (induction xs arbitrary: t0) auto

lemma totalLength_scan_message:
  "totalLength (scan_message a msg)
     = totalLength a + int (sum_list (map length (strings_Split (Content msg) full_stop)))"
  by (simp add: scan_message_def Let_def sum_segments)

lemma totalLength_foldl:
  "totalLength (foldl scan_message a messages)
     = totalLength a
       + int (sum_list (map length
           (concat (map (\<lambda>msg. strings_Split (Content msg) full_stop) messages))))"
  by (induction messages arbitrary: a) (simp_all add: totalLength_scan_message)

lemma sentenceCount_foldl:
  "foldl (\<lambda>n msg. n + int (length (strings_Split (Content msg) full_stop))) k messages
     = k + int (length (concat (map (\<lambda>msg. strings_Split (Content msg) full_stop) messages)))"
  by (induction messages arbitrary: k) simp_all

lemma analyzeStyle_SentenceLength:
  "SentenceLength (analyzeStyle order messages) =
     (let segments = concat (map (\<lambda>msg. strings_Split (Content msg) full_stop) messages)
      in if segments = [] then 0
         else real (sum_list (map length segments)) / real (length segments))"
  by (simp add: analyzeStyle_def Let_def totalLength_foldl sentenceCount_foldl)

text \<open>
  C8 does not hold of the code. The message U+4F60 U+597D U+3002 splits at the full stop
  into one segment of two runes and one empty segment; analyzeStyle counts both and
  yields 2 / 2 = 1, where the average over the non-empty segments is 2 / 1 = 2.
\<close>

theorem analyzeStyle_sentence_length_counts_empty_segments:
  "SentenceLength (analyzeStyle order [msg_full_stop]) = 1
   \<and> nonempty_segments [msg_full_stop] = [[20320, 22909]]
   \<and> spec_average_sentence_length [msg_full_stop] = 2"
  by (simp add: eval_style msg_full_stop_def spec_average_sentence_length_def
      nonempty_segments_def)

text \<open>
  \<open>getTopN\<close> records one entry per round of its outer loop, and the loop runs while
  \<open>i < len(words) - 1\<close>: whatever the order of the entries and whatever \<open>n\<close>, at least one
  of the words is left out.
\<close>

lemma getTopN_outer_dom:
  "finite (dom result) \<Longrightarrow>
     finite (dom (getTopN_outer words n i result))
     \<and> card (dom (getTopN_outer words n i result)) \<le> card (dom result) + (length words - 1 - i)"
proof (induction words n i result rule: getTopN_outer.induct)
  case (1 words n i result)
  show ?case
  proof (cases "int i < int (length words) - 1 \<and> int i < n")
    case False
    then have "getTopN_outer words n i result = result"
      by (subst getTopN_outer.simps) (simp only: if_False)
    then show ?thesis using "1.prems" by simp
  next
    case True
    let ?m = "getTopN_inner words i (i + 1)"
    let ?words = "words[i := words ! ?m, ?m := words ! i]"
    let ?result = "result(fst (words ! ?m) \<mapsto> snd (words ! ?m))"
    have fin: "finite (dom ?result)" using "1.prems" by simp
    have step: "getTopN_outer words n i result = getTopN_outer ?words n (i + 1) ?result"
      using True by (subst getTopN_outer.simps) simp
    have card: "card (dom ?result) \<le> Suc (card (dom result))"
      using "1.prems" by (simp add: card_insert_if)
    have len: "length ?words = length words" by simp
    have ih: "finite (dom (getTopN_outer ?words n (i + 1) ?result))
        \<and> card (dom (getTopN_outer ?words n (i + 1) ?result))
             \<le> card (dom ?result) + (length ?words - 1 - (i + 1))"
      by (rule "1.IH" [OF True fin])
    from True have room: "Suc (length words - 1 - (i + 1)) = length words - 1 - i"
      by linarith
    from ih have "card (dom (getTopN_outer words n i result))
        \<le> card (dom ?result) + (length words - 1 - (i + 1))"
      unfolding step len by blast
    also have "\<dots> \<le> Suc (card (dom result)) + (length words - 1 - (i + 1))"
      using card by simp
    also have "\<dots> = card (dom result) + (length words - 1 - i)"
      using room by simp
    finally have "card (dom (getTopN_outer words n i result))
        \<le> card (dom result) + (length words - 1 - i)" .
    moreover from ih have "finite (dom (getTopN_outer words n i result))"
      unfolding step by blast
    ultimately show ?thesis by blast
  qed
qed

lemma getTopN_drops_one:
  "words \<noteq> [] \<Longrightarrow> card (dom (getTopN words n)) < length words"
  using getTopN_outer_dom [of Map.empty words n 0]
  by (cases words) (auto simp: getTopN_def)

text \<open>
  C9 does not hold of the code. A message with the single token \<open>hello\<close> gives an
  empty vocabulary; a message with the tokens \<open>hello\<close> (twice) and \<open>world\<close> (once)
  gives a vocabulary holding \<open>hello\<close> only: with k \<open>\<le>\<close> 10 distinct tokens, k - 1 of
  them are kept.
\<close>

theorem getTopN_drops_last_word:
  "Vocabulary (analyzeStyle (\<lambda>entries. entries) [msg_u]) = Map.empty
   \<and> strings_Fields (Content msg_u) = [ascii ''hello'']
   \<and> Vocabulary (analyzeStyle (\<lambda>entries. entries) [msg_two_words]) = [ascii ''hello'' \<mapsto> 2]
   \<and> strings_Fields (Content msg_two_words) = [ascii ''hello'', ascii ''world'', ascii ''hello'']"
  by (simp add: eval_style msg_u_def msg_two_words_def strings_Fields_def unicode_IsSpace_def
      getTopN_def getTopN_outer.simps getTopN_inner.simps)

text \<open>
  The caller of UpdateStyle: when the lookups succeed, both rows exist and the summary is
  not due, \<open>updateSummaryAndStyle\<close> refreshes the style exactly when ShouldUpdateStyle
  accepts the number of all messages of the conversation, and hands that same list to
  UpdateStyle.
\<close>

lemma updateSummaryAndStyle_style_check:
  assumes "\<not> find_messages_fails out"
    and "\<not> first_fails (summary_lookup out)" and "\<not> first_fails (style_lookup out)"
    and "summaries db conversationID = Some summary"
    and "styles db (conversationID, senderID) = Some style"
    and "\<not> ShouldUpdateSummary summaryCfg (clock out) summary
            (int (length (conversation_messages db conversationID)))"
  shows "updateSummaryAndStyle summaryCfg styleCfg llm rt out db conversationID senderID =
           (if ShouldUpdateStyle styleCfg style
                 (int (length (conversation_messages db conversationID)))
            then snd (UpdateStyle styleCfg rt (style_update out) db conversationID senderID
                        (conversation_messages db conversationID))
            else db)"
  using assms
  by (simp add: updateSummaryAndStyle_def GetOrCreateSummary_def GetOrCreateStyle_def Let_def)

text \<open>
  C10, as amended. When style learning is enabled, a call of UpdateStyle that returns nil
  on an input holding at least one message by the user leaves a stored profile whose
  LastMessageCount is the number of the input's messages written by that user, not the
  length of the input; so ShouldUpdateStyle, asked with the length of that input, compares
  the threshold with the number of messages written by others. Whenever no message of the
  input is by the user, UpdateStyle returns nil and leaves the store unchanged.
\<close>

theorem UpdateStyle_counts_user_messages:
  "(Enabled cfg \<and> filter (\<lambda>msg. SenderID msg = userID) messages \<noteq> []
      \<and> UpdateStyle cfg rt out db conversationID userID messages = (None, db')
     \<longrightarrow> (\<exists>style. styles db' (conversationID, userID) = Some style
            \<and> LastMessageCount style =
                int (length (filter (\<lambda>msg. SenderID msg = userID) messages))
            \<and> ShouldUpdateStyle cfg style (int (length messages)) =
                (UpdateThresholdMessages cfg
                   \<le> int (length messages)
                      - int (length (filter (\<lambda>msg. SenderID msg = userID) messages)))))
   \<and> (filter (\<lambda>msg. SenderID msg = userID) messages = []
     \<longrightarrow> UpdateStyle cfg rt out db conversationID userID messages = (None, db))"
  by (auto simp: UpdateStyle_def GetOrCreateStyle_def Let_def ShouldUpdateStyle_def
      split: option.splits if_splits)

theorem UpdateStyle_counts_user_messages_witness:
  "Enabled style_enabled
   \<and> fst (UpdateStyle style_enabled example_runtime all_succeed example_db 1 (ascii ''u'')
          [msg_u, msg_v, msg_u]) = None
   \<and> map_option LastMessageCount
        (styles (snd (UpdateStyle style_enabled example_runtime all_succeed example_db 1
                        (ascii ''u'') [msg_u, msg_v, msg_u])) (1, ascii ''u''))
       = Some 2
   \<and> UpdateStyle style_enabled example_runtime all_succeed example_db 1 (ascii ''u'') [msg_v]
       = (None, example_db)"
proof -
  let ?ms = "[msg_u, msg_v, msg_u]"
  let ?r = "UpdateStyle style_enabled example_runtime all_succeed example_db 1 (ascii ''u'') ?ms"
  have en: "Enabled style_enabled" by (simp add: style_enabled_def)
  have mine: "filter (\<lambda>msg. SenderID msg = ascii ''u'') ?ms = [msg_u, msg_u]"
    by (simp add: msg_u_def msg_v_def ascii_def)
  have none: "filter (\<lambda>msg. SenderID msg = ascii ''u'') [msg_v] = []"
    by (simp add: msg_v_def ascii_def)
  have ok: "fst ?r = None"
    by (simp add: UpdateStyle_def GetOrCreateStyle_def Let_def mine en example_runtime_def
        example_db_def all_succeed_def)
  then have res: "?r = (None, snd ?r)" by (simp add: prod_eq_iff)
  note counted = UpdateStyle_counts_user_messages
    [of style_enabled "ascii ''u''" _ example_runtime all_succeed example_db 1]
  from counted [of ?ms "snd ?r"] en mine res
  obtain style where "styles (snd ?r) (1, ascii ''u'') = Some style"
    and "LastMessageCount style = 2"
    by auto
  then have count: "map_option LastMessageCount (styles (snd ?r) (1, ascii ''u'')) = Some 2"
    by simp
  from counted [of "[msg_v]" example_db] none
  have unchanged: "UpdateStyle style_enabled example_runtime all_succeed example_db 1
       (ascii ''u'') [msg_v] = (None, example_db)"
    by simp
  from en ok count unchanged show ?thesis by blast
qed

text \<open>
  C10 as stated fails where style learning is disabled: UpdateStyle returns nil on an
  input with two messages by the user, and the stored profile keeps its LastMessageCount
  of 0.
\<close>

theorem UpdateStyle_disabled_counterexample:
  "fst (UpdateStyle style_disabled example_runtime all_succeed example_db 1 (ascii ''u'')
          [msg_u, msg_v, msg_u]) = None
   \<and> length (filter (\<lambda>msg. SenderID msg = ascii ''u'') [msg_u, msg_v, msg_u]) = 2
   \<and> map_option LastMessageCount
        (styles (snd (UpdateStyle style_disabled example_runtime all_succeed example_db 1
                        (ascii ''u'') [msg_u, msg_v, msg_u])) (1, ascii ''u''))
       = Some 0"
  by (simp add: UpdateStyle_def style_disabled_def example_db_def stored_style_def
      msg_u_def msg_v_def ascii_def)

end
